theory Spec2Isabelle
  imports Complex_Main
begin

section \<open>AST model (ast_nodes/ritual_nodes.py)\<close>

datatype RealmType = MORTAL | SPIRIT | SHADOW | VOID | ASTRAL | DIVINE | TEMPORAL

datatype OperationType =
    UNION | DIFFERENCE | FUSION | DIVISION | POWER | ESSENCE
  | GREATER_THAN | LESS_THAN | EQUALS | NOT_EQUALS

text \<open>
  A condition is \<open>Union[ComparisonNode, str]\<close>. The statement classes are the subclasses of
  \<open>SpellNode\<close>; a program holds a list of them.
\<close>

datatype condition = Comparison string OperationType string | ConditionText string

datatype SpellNode =
    InvokeNode "string list" RealmType
  | ChannelNode string
  | WeaveNode string
  | ManifestNode OperationType "string list" string
  | SpeakNode string string
  | ConditionalNode condition "SpellNode list" "SpellNode list option"
  | WhileLoopNode condition "SpellNode list"
  | ComparisonNode string OperationType string
  | SpellProgramNode "SpellNode list"

section \<open>Run-time values\<close>

text \<open>
  The values a spirit can hold are Python objects. \<open>'f\<close> is the type of floating-point
  numbers, whose arithmetic is a parameter of the model (see \<open>builtins\<close> below).
  \<open>PyObject\<close> stands for any object of another class (literal evaluation of ASTRAL and
  DIVINE text can return one); it is an instance of none of \<open>int\<close>, \<open>float\<close>, \<open>str\<close>,
  \<open>bool\<close>, \<open>list\<close>.
\<close>

datatype 'f pyvalue =
    PyInt int
  | PyFloat 'f
  | PyStr string
  | PyBool bool
  | PyNone
  | PyList "'f pyvalue list"
  | PyDict "('f pyvalue \<times> 'f pyvalue) list"
  | PyDatetime string
  | PyObject nat

text \<open>
  The built-in functions and operators of Python that the runtime calls and that are not
  written in this repository are parameters of the model: the floating-point arithmetic,
  \<open>int\<close> and \<open>float\<close>, \<open>str\<close> of the values without a fixed rendering, the operators on
  other objects, \<open>eval\<close> and \<open>datetime.fromisoformat\<close>. \<open>None\<close> is a raised
  exception.
\<close>

datatype 'f eval_outcome =
    Returned "'f pyvalue"
  | Raised
  | Escaped

text \<open>
  \<open>Raised\<close> is an exception of class \<open>Exception\<close>; \<open>Escaped\<close> is one that is not
  (\<open>SystemExit\<close>, \<open>KeyboardInterrupt\<close>), which \<open>except Exception\<close> lets through.
\<close>

record 'f builtins =
  int_of_str :: "string \<Rightarrow> int option"
  float_of_str :: "string \<Rightarrow> 'f option"
  float_of_int :: "int \<Rightarrow> 'f option"
  float_is_zero :: "'f \<Rightarrow> bool"
  float_add :: "'f \<Rightarrow> 'f \<Rightarrow> 'f"
  float_sub :: "'f \<Rightarrow> 'f \<Rightarrow> 'f"
  float_mul :: "'f \<Rightarrow> 'f \<Rightarrow> 'f"
  float_div :: "'f \<Rightarrow> 'f \<Rightarrow> 'f"
  float_pow :: "'f \<Rightarrow> 'f \<Rightarrow> 'f pyvalue option"
  int_truediv :: "int \<Rightarrow> int \<Rightarrow> 'f option"
  str_of :: "'f pyvalue \<Rightarrow> string"
  str_raises :: "'f pyvalue \<Rightarrow> bool"
  object_add :: "'f pyvalue \<Rightarrow> 'f pyvalue \<Rightarrow> 'f pyvalue option"
  object_float :: "nat \<Rightarrow> 'f option"
  object_truth :: "nat \<Rightarrow> bool"
  eval_text :: "string \<Rightarrow> 'f eval_outcome"
  fromisoformat :: "string \<Rightarrow> string option"

text \<open>
  Every exception the runtime raises is a \<open>ValueError\<close> told apart by its message. An
  exception raised inside the \<open>try\<close> of \<open>manifest_union\<close> is raised again as
  "Mystical operation failed: ..." around the original message.
\<close>

datatype failure =
    DivisionByZero
  | CoercionError
  | UnknownOperation
  | ArithmeticFault
  | FormattingFault

datatype error =
    UnboundVariable string
  | MissingOperand
  | MysticalOperationFailed failure
  | UnknownStatement
  | EndOfInput
  | EvaluationEscaped
  | FormattingFailed

section \<open>Dictionaries\<close>

text \<open>
  A Python \<open>dict\<close> keeps insertion order: assigning to a key that is present replaces the
  value in place, assigning to a new key appends it.
\<close>

fun dict_set :: "'k \<Rightarrow> 'v \<Rightarrow> ('k \<times> 'v) list \<Rightarrow> ('k \<times> 'v) list" where
  "dict_set k v [] = [(k, v)]"
| "dict_set k v (p # ps) = (if fst p = k then (k, v) # ps else p # dict_set k v ps)"

definition dict_has :: "'k \<Rightarrow> ('k \<times> 'v) list \<Rightarrow> bool" where
  "dict_has k d = (map_of d k \<noteq> None)"

section \<open>Environment (interpreter/variable_storage.py)\<close>

record 'f SpiritRealm =
  spirits :: "(string \<times> 'f pyvalue) list"
  spirit_realms :: "(string \<times> RealmType) list"
  spirit_types :: "(string \<times> string) list"

definition empty_realm :: "'f SpiritRealm" where
  "empty_realm = \<lparr>spirits = [], spirit_realms = [], spirit_types = []\<rparr>"

definition get_spirit_essence :: "'f SpiritRealm \<Rightarrow> string \<Rightarrow> error + 'f pyvalue" where
  "get_spirit_essence env name =
     (case map_of (spirits env) name of
        None \<Rightarrow> Inl (UnboundVariable name)
      | Some v \<Rightarrow> Inr v)"

definition get_spirit_realm :: "'f SpiritRealm \<Rightarrow> string \<Rightarrow> error + RealmType" where
  "get_spirit_realm env name =
     (case map_of (spirit_realms env) name of
        None \<Rightarrow> Inl (UnboundVariable name)
      | Some r \<Rightarrow> Inr r)"


definition has_spirit :: "'f SpiritRealm \<Rightarrow> string \<Rightarrow> bool" where
  "has_spirit env name = dict_has name (spirits env)"

text \<open>\<open>type(value).__name__\<close>; the class name of another object is not modelled.\<close>

fun type_name :: "'f pyvalue \<Rightarrow> string" where
  "type_name (PyInt _) = ''int''"
| "type_name (PyFloat _) = ''float''"
| "type_name (PyStr _) = ''str''"
| "type_name (PyBool _) = ''bool''"
| "type_name PyNone = ''NoneType''"
| "type_name (PyList _) = ''list''"
| "type_name (PyDict _) = ''dict''"
| "type_name (PyDatetime _) = ''datetime''"
| "type_name (PyObject _) = ''object''"

definition bind_manifestation ::
  "'f SpiritRealm \<Rightarrow> string \<Rightarrow> 'f pyvalue \<Rightarrow> RealmType \<Rightarrow> 'f SpiritRealm" where
  "bind_manifestation env name v realm =
     \<lparr>spirits = dict_set name v (spirits env),
      spirit_realms = dict_set name realm (spirit_realms env),
      spirit_types = dict_set name (type_name v) (spirit_types env)\<rparr>"

section \<open>Python operators on values\<close>

text \<open>\<open>isinstance\<close>: \<open>bool\<close> is a subclass of \<open>int\<close>, so a boolean is an \<open>int\<close> too.\<close>

fun is_str :: "'f pyvalue \<Rightarrow> bool" where
  "is_str (PyStr _) = True"
| "is_str _ = False"

fun is_bool :: "'f pyvalue \<Rightarrow> bool" where
  "is_bool (PyBool _) = True"
| "is_bool _ = False"

fun is_int :: "'f pyvalue \<Rightarrow> bool" where
  "is_int (PyInt _) = True"
| "is_int (PyBool _) = True"
| "is_int _ = False"

fun is_int_or_float :: "'f pyvalue \<Rightarrow> bool" where
  "is_int_or_float (PyInt _) = True"
| "is_int_or_float (PyBool _) = True"
| "is_int_or_float (PyFloat _) = True"
| "is_int_or_float _ = False"

fun is_list :: "'f pyvalue \<Rightarrow> bool" where
  "is_list (PyList _) = True"
| "is_list _ = False"

text \<open>The integer an \<open>int\<close> instance stands for in arithmetic: \<open>True\<close> is 1, \<open>False\<close> is 0.\<close>

fun int_value :: "'f pyvalue \<Rightarrow> int option" where
  "int_value (PyInt i) = Some i"
| "int_value (PyBool b) = Some (if b then 1 else 0)"
| "int_value _ = None"

text \<open>The float operand of mixed arithmetic; a huge \<open>int\<close> raises \<open>OverflowError\<close>.\<close>

fun float_operand :: "'f builtins \<Rightarrow> 'f pyvalue \<Rightarrow> 'f option" where
  "float_operand py (PyFloat x) = Some x"
| "float_operand py (PyInt i) = float_of_int py i"
| "float_operand py (PyBool b) = float_of_int py (if b then 1 else 0)"
| "float_operand py _ = None"

text \<open>
  \<open>left + right\<close>, \<open>left - right\<close>, \<open>left * right\<close> on two numbers: exact on two
  \<open>int\<close> instances, floating-point as soon as one is a \<open>float\<close>.
\<close>

definition arith ::
  "'f builtins \<Rightarrow> (int \<Rightarrow> int \<Rightarrow> int) \<Rightarrow> ('f \<Rightarrow> 'f \<Rightarrow> 'f) \<Rightarrow>
     'f pyvalue \<Rightarrow> 'f pyvalue \<Rightarrow> failure + 'f pyvalue" where
  "arith py iop fop l r =
     (case (int_value l, int_value r) of
        (Some a, Some b) \<Rightarrow> Inr (PyInt (iop a b))
      | _ \<Rightarrow>
          (case (float_operand py l, float_operand py r) of
             (Some x, Some y) \<Rightarrow> Inr (PyFloat (fop x y))
           | _ \<Rightarrow> Inl ArithmeticFault))"

text \<open>
  \<open>str(v)\<close>, which is also what an f-string or \<open>print\<close> puts for \<open>{v}\<close>. It is
  \<open>None\<close> when the conversion raises: an \<open>int\<close> of more digits than the conversion
  limit, an object whose \<open>__str__\<close> raises, a container of one. \<open>str(int)\<close> gives the
  decimal digits, with a minus sign.
\<close>

fun digits :: "nat \<Rightarrow> string" where
  "digits n = (if n < 10 then [''0123456789'' ! n]
               else digits (n div 10) @ [''0123456789'' ! (n mod 10)])"

definition str_int :: "int \<Rightarrow> string" where
  "str_int i = (if i < 0 then CHR ''-'' # digits (nat (- i)) else digits (nat i))"

fun py_str :: "'f builtins \<Rightarrow> 'f pyvalue \<Rightarrow> string option" where
  "py_str py (PyStr s) = Some s"
| "py_str py (PyBool b) = Some (if b then ''True'' else ''False'')"
| "py_str py PyNone = Some ''None''"
| "py_str py (PyInt i) = (if str_raises py (PyInt i) then None else Some (str_int i))"
| "py_str py v = (if str_raises py v then None else Some (str_of py v))"

text \<open>\<open>str(left) + str(right)\<close>.\<close>

definition str_concat :: "'f builtins \<Rightarrow> 'f pyvalue \<Rightarrow> 'f pyvalue \<Rightarrow> failure + 'f pyvalue" where
  "str_concat py left right =
     (case py_str py left of
        None \<Rightarrow> Inl FormattingFault
      | Some a \<Rightarrow>
          (case py_str py right of
             None \<Rightarrow> Inl FormattingFault
           | Some b \<Rightarrow> Inr (PyStr (a @ b))))"

text \<open>
  \<open>get_realm_status\<close> lists, for every name of \<open>spirits\<close> in order, its value, type label
  and realm (the parts of each line of the report). The two lookups are subscripts: a
  name missing from either dictionary raises \<open>KeyError\<close>, and a value that cannot be
  formatted raises too; both are \<open>None\<close> here.
\<close>

fun status_lines ::
  "'f builtins \<Rightarrow> 'f SpiritRealm \<Rightarrow> (string \<times> 'f pyvalue) list \<Rightarrow>
     (string \<times> 'f pyvalue \<times> string \<times> RealmType) list option" where
  "status_lines py env [] = Some []"
| "status_lines py env ((name, v) # rest) =
     (case map_of (spirit_realms env) name of
        None \<Rightarrow> None
      | Some realm \<Rightarrow>
          (case map_of (spirit_types env) name of
             None \<Rightarrow> None
           | Some t \<Rightarrow>
               (case py_str py v of
                  None \<Rightarrow> None
                | Some _ \<Rightarrow>
                    (case status_lines py env rest of
                       None \<Rightarrow> None
                     | Some ls \<Rightarrow> Some ((name, v, t, realm) # ls)))))"

definition get_realm_status ::
  "'f builtins \<Rightarrow> 'f SpiritRealm \<Rightarrow>
     (string \<times> 'f pyvalue \<times> string \<times> RealmType) list option" where
  "get_realm_status py env = status_lines py env (spirits env)"

text \<open>\<open>float(v)\<close>; every way it raises is the failure of a coercion.\<close>

fun py_float :: "'f builtins \<Rightarrow> 'f pyvalue \<Rightarrow> 'f option" where
  "py_float py (PyFloat x) = Some x"
| "py_float py (PyInt i) = float_of_int py i"
| "py_float py (PyBool b) = float_of_int py (if b then 1 else 0)"
| "py_float py (PyStr s) = float_of_str py s"
| "py_float py (PyObject n) = object_float py n"
| "py_float py _ = None"

text \<open>Truth value of an object, as \<open>or\<close>, \<open>and\<close> and \<open>not\<close> test it.\<close>

fun truthy :: "'f builtins \<Rightarrow> 'f pyvalue \<Rightarrow> bool" where
  "truthy py (PyInt i) = (i \<noteq> 0)"
| "truthy py (PyFloat x) = (\<not> float_is_zero py x)"
| "truthy py (PyStr s) = (s \<noteq> [])"
| "truthy py (PyBool b) = b"
| "truthy py PyNone = False"
| "truthy py (PyList xs) = (xs \<noteq> [])"
| "truthy py (PyDict d) = (d \<noteq> [])"
| "truthy py (PyDatetime _) = True"
| "truthy py (PyObject n) = object_truth py n"

text \<open>\<open>right == 0\<close> on a number.\<close>

fun equals_zero :: "'f builtins \<Rightarrow> 'f pyvalue \<Rightarrow> bool" where
  "equals_zero py (PyInt i) = (i = 0)"
| "equals_zero py (PyBool b) = (\<not> b)"
| "equals_zero py (PyFloat x) = float_is_zero py x"
| "equals_zero py _ = False"

text \<open>
  The operator \<open>+\<close>: numbers add, texts and lists concatenate, an object decides for
  itself, and every other pair raises \<open>TypeError\<close>.
\<close>

definition py_add :: "'f builtins \<Rightarrow> 'f pyvalue \<Rightarrow> 'f pyvalue \<Rightarrow> failure + 'f pyvalue" where
  "py_add py l r =
     (if is_int_or_float l \<and> is_int_or_float r then arith py (+) (float_add py) l r
      else case (l, r) of
        (PyStr a, PyStr b) \<Rightarrow> Inr (PyStr (a @ b))
      | (PyList a, PyList b) \<Rightarrow> Inr (PyList (a @ b))
      | (PyObject n, _) \<Rightarrow>
          (case object_add py l r of None \<Rightarrow> Inl CoercionError | Some v \<Rightarrow> Inr v)
      | (_, PyObject n) \<Rightarrow>
          (case object_add py l r of None \<Rightarrow> Inl CoercionError | Some v \<Rightarrow> Inr v)
      | _ \<Rightarrow> Inl CoercionError)"

text \<open>\<open>s.replace(old, "")\<close>: the occurrences of \<open>old\<close> are found left to right.\<close>

function remove_all :: "string \<Rightarrow> string \<Rightarrow> string" where
  "remove_all old [] = []"
| "remove_all old (c # cs) =
     (if old \<noteq> [] \<and> take (length old) (c # cs) = old
      then remove_all old (drop (length old) (c # cs))
      else c # remove_all old cs)"
  by pat_completeness auto
termination
  by (relation "measure (\<lambda>(old, s). length s)") (auto simp: neq_Nil_conv)

text \<open>\<open>seq * n\<close>: \<open>n\<close> copies, none when \<open>n\<close> is not positive.\<close>

definition repeat :: "'a list \<Rightarrow> int \<Rightarrow> 'a list" where
  "repeat xs n = concat (replicate (nat n) xs)"

section \<open>Execution engine (interpreter/execution_engine.py)\<close>

text \<open>
  The two slots hold \<open>None\<close> when nothing is staged. The history keeps the parts of each
  formatted line; formatting a line raises when a value in it cannot be converted to
  text.
\<close>

datatype 'f history_entry =
    Channeled string "'f pyvalue"
  | Woven string "'f pyvalue"
  | Manifested OperationType "'f pyvalue" "'f pyvalue" "'f pyvalue"

record 'f MysticalExecutor =
  channeled_essence :: "'f pyvalue"
  woven_force :: "'f pyvalue"
  operation_history :: "'f history_entry list"

definition new_executor :: "'f MysticalExecutor" where
  "new_executor = \<lparr>channeled_essence = PyNone, woven_force = PyNone, operation_history = []\<rparr>"

text \<open>
  \<open>channel_essence\<close> and \<open>weave_force\<close> set the slot and then format the history line:
  when formatting raises, the slot is already set.
\<close>

definition channel_essence ::
  "'f builtins \<Rightarrow> 'f MysticalExecutor \<Rightarrow> string \<Rightarrow> 'f pyvalue \<Rightarrow>
     error option \<times> 'f MysticalExecutor" where
  "channel_essence py ex variable v =
     (let ex1 = ex\<lparr>channeled_essence := v\<rparr> in
      case py_str py v of
        None \<Rightarrow> (Some FormattingFailed, ex1)
      | Some _ \<Rightarrow>
          (None, ex1\<lparr>operation_history := operation_history ex1 @ [Channeled variable v]\<rparr>))"

definition weave_force ::
  "'f builtins \<Rightarrow> 'f MysticalExecutor \<Rightarrow> string \<Rightarrow> 'f pyvalue \<Rightarrow>
     error option \<times> 'f MysticalExecutor" where
  "weave_force py ex variable v =
     (let ex1 = ex\<lparr>woven_force := v\<rparr> in
      case py_str py v of
        None \<Rightarrow> (Some FormattingFailed, ex1)
      | Some _ \<Rightarrow>
          (None, ex1\<lparr>operation_history := operation_history ex1 @ [Woven variable v]\<rparr>))"

definition perform_union ::
  "'f builtins \<Rightarrow> 'f pyvalue \<Rightarrow> 'f pyvalue \<Rightarrow> failure + 'f pyvalue" where
  "perform_union py left right =
     (if is_str left \<or> is_str right then str_concat py left right
      else if is_int_or_float left \<and> is_int_or_float right
        then arith py (+) (float_add py) left right
      else if is_bool left \<or> is_bool right
        then Inr (if truthy py left then left else right)
      else if is_list left \<and> is_list right
        then (case (left, right) of
                (PyList a, PyList b) \<Rightarrow> Inr (PyList (a @ b))
              | _ \<Rightarrow> Inl CoercionError)
      else (case py_add py left right of
              Inr v \<Rightarrow> Inr v
            | Inl _ \<Rightarrow> str_concat py left right))"

definition perform_difference ::
  "'f builtins \<Rightarrow> 'f pyvalue \<Rightarrow> 'f pyvalue \<Rightarrow> failure + 'f pyvalue" where
  "perform_difference py left right =
     (if is_int_or_float left \<and> is_int_or_float right
        then arith py (-) (float_sub py) left right
      else if is_bool left \<and> is_bool right
        then Inr (if truthy py left then PyBool (\<not> truthy py right) else left)
      else case (left, right) of
        (PyStr a, PyStr b) \<Rightarrow> Inr (PyStr (remove_all b a))
      | _ \<Rightarrow>
          (case py_float py left of
             None \<Rightarrow> Inl CoercionError
           | Some x \<Rightarrow>
               (case py_float py right of
                  None \<Rightarrow> Inl CoercionError
                | Some y \<Rightarrow> Inr (PyFloat (float_sub py x y)))))"

definition perform_fusion ::
  "'f builtins \<Rightarrow> 'f pyvalue \<Rightarrow> 'f pyvalue \<Rightarrow> failure + 'f pyvalue" where
  "perform_fusion py left right =
     (if is_int_or_float left \<and> is_int_or_float right
        then arith py (*) (float_mul py) left right
      else if is_str left \<and> is_int right
        then (case (left, int_value right) of
                (PyStr a, Some n) \<Rightarrow> Inr (PyStr (repeat a n))
              | _ \<Rightarrow> Inl CoercionError)
      else if is_bool left \<and> is_bool right
        then Inr (if truthy py left then right else left)
      else if is_list left \<and> is_int right
        then (case (left, int_value right) of
                (PyList a, Some n) \<Rightarrow> Inr (PyList (repeat a n))
              | _ \<Rightarrow> Inl CoercionError)
      else
        (case py_float py left of
           None \<Rightarrow> Inl CoercionError
         | Some x \<Rightarrow>
             (case py_float py right of
                None \<Rightarrow> Inl CoercionError
              | Some y \<Rightarrow> Inr (PyFloat (float_mul py x y)))))"

text \<open>
  \<open>left / right\<close> on two numbers, the divisor not zero: true division, a \<open>float\<close> also
  for two \<open>int\<close> instances.
\<close>

definition true_divide ::
  "'f builtins \<Rightarrow> 'f pyvalue \<Rightarrow> 'f pyvalue \<Rightarrow> failure + 'f pyvalue" where
  "true_divide py l r =
     (case (int_value l, int_value r) of
        (Some a, Some b) \<Rightarrow>
          (case int_truediv py a b of None \<Rightarrow> Inl ArithmeticFault | Some q \<Rightarrow> Inr (PyFloat q))
      | _ \<Rightarrow>
          (case (float_operand py l, float_operand py r) of
             (Some x, Some y) \<Rightarrow> Inr (PyFloat (float_div py x y))
           | _ \<Rightarrow> Inl ArithmeticFault))"

definition perform_division ::
  "'f builtins \<Rightarrow> 'f pyvalue \<Rightarrow> 'f pyvalue \<Rightarrow> failure + 'f pyvalue" where
  "perform_division py left right =
     (if is_int_or_float left \<and> is_int_or_float right
        then (if equals_zero py right then Inl DivisionByZero
              else true_divide py left right)
      else case py_float py right of
        None \<Rightarrow> Inl CoercionError
      | Some right_num \<Rightarrow>
          (if float_is_zero py right_num then Inl DivisionByZero
           else case py_float py left of
             None \<Rightarrow> Inl CoercionError
           | Some x \<Rightarrow> Inr (PyFloat (float_div py x right_num))))"

text \<open>
  \<open>left ** right\<close> on two numbers: an exact \<open>int\<close> for two \<open>int\<close> instances and an
  exponent that is not negative, otherwise the floating-point power, which can raise
  (zero to a negative power, overflow) or give a complex number.
\<close>

definition power_numbers ::
  "'f builtins \<Rightarrow> 'f pyvalue \<Rightarrow> 'f pyvalue \<Rightarrow> failure + 'f pyvalue" where
  "power_numbers py l r =
     (case (int_value l, int_value r) of
        (Some a, Some b) \<Rightarrow>
          (if 0 \<le> b then Inr (PyInt (a ^ nat b))
           else case (float_of_int py a, float_of_int py b) of
             (Some x, Some y) \<Rightarrow>
               (case float_pow py x y of None \<Rightarrow> Inl ArithmeticFault | Some v \<Rightarrow> Inr v)
           | _ \<Rightarrow> Inl ArithmeticFault)
      | _ \<Rightarrow>
          (case (float_operand py l, float_operand py r) of
             (Some x, Some y) \<Rightarrow>
               (case float_pow py x y of None \<Rightarrow> Inl ArithmeticFault | Some v \<Rightarrow> Inr v)
           | _ \<Rightarrow> Inl ArithmeticFault))"

definition perform_power ::
  "'f builtins \<Rightarrow> 'f pyvalue \<Rightarrow> 'f pyvalue \<Rightarrow> failure + 'f pyvalue" where
  "perform_power py left right =
     (if is_int_or_float left \<and> is_int_or_float right then power_numbers py left right
      else case py_float py left of
        None \<Rightarrow> Inl CoercionError
      | Some x \<Rightarrow>
          (case py_float py right of
             None \<Rightarrow> Inl CoercionError
           | Some y \<Rightarrow>
               (case float_pow py x y of None \<Rightarrow> Inl ArithmeticFault | Some v \<Rightarrow> Inr v)))"

definition perform_essence :: "'f pyvalue \<Rightarrow> 'f pyvalue" where
  "perform_essence left = left"

text \<open>The dispatch inside the \<open>try\<close> of \<open>manifest_union\<close>.\<close>

fun perform ::
  "'f builtins \<Rightarrow> OperationType \<Rightarrow> 'f pyvalue \<Rightarrow> 'f pyvalue \<Rightarrow> failure + 'f pyvalue" where
  "perform py UNION left right = perform_union py left right"
| "perform py DIFFERENCE left right = perform_difference py left right"
| "perform py FUSION left right = perform_fusion py left right"
| "perform py DIVISION left right = perform_division py left right"
| "perform py POWER left right = perform_power py left right"
| "perform py ESSENCE left right = Inr (perform_essence left)"
| "perform py _ left right = Inl UnknownOperation"

text \<open>
  \<open>manifest_union\<close> returns the result or the raised error, and the executor as the call
  leaves it. Both \<open>raise\<close> statements leave the executor as it was: the two slots are
  reset on the path that returns. The history line is formatted inside the \<open>try\<close>, from
  both slots and the result, before the slots are reset.
\<close>

definition manifest_union ::
  "'f builtins \<Rightarrow> 'f MysticalExecutor \<Rightarrow> OperationType \<Rightarrow> string list \<Rightarrow>
     (error + 'f pyvalue) \<times> 'f MysticalExecutor" where
  "manifest_union py ex operation operands =
     (if (if operation = ESSENCE then channeled_essence ex = PyNone
          else channeled_essence ex = PyNone \<or> woven_force ex = PyNone)
      then (Inl MissingOperand, ex)
      else
        let left = channeled_essence ex; right = woven_force ex in
        case perform py operation left right of
          Inl f \<Rightarrow> (Inl (MysticalOperationFailed f), ex)
        | Inr result \<Rightarrow>
            (if py_str py left = None \<or> py_str py right = None \<or> py_str py result = None
             then (Inl (MysticalOperationFailed FormattingFault), ex)
             else
               (Inr result,
                ex\<lparr>channeled_essence := PyNone, woven_force := PyNone,
                   operation_history :=
                     operation_history ex @ [Manifested operation left right result]\<rparr>)))"

section \<open>Coercion of raw text (interpreter/variable_storage.py)\<close>

text \<open>\<open>str.lower\<close> on the letters A to Z, \<open>in\<close> on a character, \<open>split\<close>.\<close>

definition lower_char :: "char \<Rightarrow> char" where
  "lower_char c =
     (case map_of (zip ''ABCDEFGHIJKLMNOPQRSTUVWXYZ'' ''abcdefghijklmnopqrstuvwxyz'') c of
        None \<Rightarrow> c
      | Some l \<Rightarrow> l)"

definition lower :: "string \<Rightarrow> string" where
  "lower s = map lower_char s"

fun split_on :: "char \<Rightarrow> string \<Rightarrow> string list" where
  "split_on sep [] = [[]]"
| "split_on sep (c # cs) =
     (if c = sep then [] # split_on sep cs
      else case split_on sep cs of
        [] \<Rightarrow> [[c]]
      | w # ws \<Rightarrow> (c # w) # ws)"

definition startswith :: "string \<Rightarrow> char \<Rightarrow> bool" where
  "startswith s c = (s \<noteq> [] \<and> hd s = c)"

definition endswith :: "string \<Rightarrow> char \<Rightarrow> bool" where
  "endswith s c = (s \<noteq> [] \<and> last s = c)"

text \<open>\<open>int(value, 2)\<close> on a text of the digits 0 and 1; the empty text raises.\<close>

definition int_base2 :: "string \<Rightarrow> int option" where
  "int_base2 s =
     (if s = [] then None
      else Some (foldl (\<lambda>acc c. 2 * acc + (if c = CHR ''1'' then 1 else 0)) 0 s))"

definition convert_mortal :: "'f builtins \<Rightarrow> string \<Rightarrow> 'f pyvalue" where
  "convert_mortal py v =
     (case int_of_str py v of
        Some i \<Rightarrow> PyInt i
      | None \<Rightarrow> (if length v = 1 then PyStr v else PyStr v))"

definition convert_spirit :: "'f builtins \<Rightarrow> string \<Rightarrow> 'f pyvalue" where
  "convert_spirit py v =
     (case (if CHR ''.'' \<in> set v then float_of_str py v else None) of
        Some x \<Rightarrow> PyFloat x
      | None \<Rightarrow>
          (case int_of_str py v of
             Some num \<Rightarrow> (if abs num > 2 ^ 31 then PyInt num else PyInt num)
           | None \<Rightarrow> PyStr v))"

text \<open>\<open>None\<close> is the \<open>ValueError\<close> of \<open>int(value, 2)\<close>, which the caller catches.\<close>

definition convert_shadow :: "string \<Rightarrow> 'f pyvalue option" where
  "convert_shadow v =
     (let lower_val = lower v in
      if lower_val \<in> set [''true'', ''yes'', ''light'', ''1'', ''on''] then Some (PyBool True)
      else if lower_val \<in> set [''false'', ''no'', ''dark'', ''0'', ''off''] then Some (PyBool False)
      else if list_all (\<lambda>c. c \<in> set ''01'') v
        then (case int_base2 v of None \<Rightarrow> None | Some i \<Rightarrow> Some (PyInt i))
      else Some (PyBool (v \<noteq> [])))"

text \<open>
  \<open>_convert_by_realm\<close>: whatever \<open>except Exception\<close> catches gives the raw text back;
  an exception that is not an \<open>Exception\<close> leaves the function.
\<close>

fun convert_by_realm :: "'f builtins \<Rightarrow> string \<Rightarrow> RealmType \<Rightarrow> error + 'f pyvalue" where
  "convert_by_realm py raw MORTAL = Inr (convert_mortal py raw)"
| "convert_by_realm py raw SPIRIT = Inr (convert_spirit py raw)"
| "convert_by_realm py raw SHADOW =
     (case convert_shadow raw of None \<Rightarrow> Inr (PyStr raw) | Some v \<Rightarrow> Inr v)"
| "convert_by_realm py raw VOID =
     Inr (if lower raw \<in> set [''null'', ''none'', ''void'', []] then PyNone else PyStr raw)"
| "convert_by_realm py raw ASTRAL =
     (if startswith raw CHR ''['' \<and> endswith raw CHR '']''
      then (case eval_text py raw of
              Returned v \<Rightarrow> Inr v
            | Raised \<Rightarrow> Inr (PyStr raw)
            | Escaped \<Rightarrow> Inl EvaluationEscaped)
      else Inr (if CHR '','' \<in> set raw then PyList (map PyStr (split_on CHR '','' raw))
                else PyList [PyStr raw]))"
| "convert_by_realm py raw DIVINE =
     (if startswith raw CHR ''{'' \<and> endswith raw CHR ''}''
      then (case eval_text py raw of
              Returned v \<Rightarrow> Inr v
            | Raised \<Rightarrow> Inr (PyStr raw)
            | Escaped \<Rightarrow> Inl EvaluationEscaped)
      else Inr (PyDict [(PyStr ''value'', PyStr raw)]))"
| "convert_by_realm py raw TEMPORAL =
     (case fromisoformat py raw of
        Some d \<Rightarrow> Inr (PyDatetime d)
      | None \<Rightarrow> Inr (PyStr raw))"

text \<open>\<open>RealmTypeInference\<close> (ast_nodes/ritual_nodes.py) and \<open>_infer_type\<close>.\<close>

definition infer_mortal_type :: "'f builtins \<Rightarrow> string \<Rightarrow> string" where
  "infer_mortal_type py v =
     (case int_of_str py v of
        Some _ \<Rightarrow> ''int''
      | None \<Rightarrow> (if length v = 1 then ''char'' else ''string''))"

definition infer_spirit_type :: "'f builtins \<Rightarrow> string \<Rightarrow> string" where
  "infer_spirit_type py v =
     (if CHR ''.'' \<in> set v
      then (case float_of_str py v of Some _ \<Rightarrow> ''double'' | None \<Rightarrow> ''string'')
      else (case int_of_str py v of
              Some val \<Rightarrow> (if abs val > 2 ^ 31 then ''long'' else ''int'')
            | None \<Rightarrow> ''string''))"

definition infer_shadow_type :: "string \<Rightarrow> string" where
  "infer_shadow_type v =
     (if lower v \<in> set [''true'', ''false'', ''yes'', ''no'', ''light'', ''dark''] then ''bool''
      else if list_all (\<lambda>c. c \<in> set ''01'') v then ''binary''
      else ''bool'')"

fun realm_value :: "RealmType \<Rightarrow> string" where
  "realm_value MORTAL = ''mortal''"
| "realm_value SPIRIT = ''spirit''"
| "realm_value SHADOW = ''shadow''"
| "realm_value VOID = ''void''"
| "realm_value ASTRAL = ''astral''"
| "realm_value DIVINE = ''divine''"
| "realm_value TEMPORAL = ''temporal''"

definition infer_type :: "'f builtins \<Rightarrow> string \<Rightarrow> RealmType \<Rightarrow> string" where
  "infer_type py raw realm =
     (if realm = MORTAL then infer_mortal_type py raw
      else if realm = SPIRIT then infer_spirit_type py raw
      else if realm = SHADOW then infer_shadow_type raw
      else realm_value realm)"

definition summon_spirit ::
  "'f builtins \<Rightarrow> 'f SpiritRealm \<Rightarrow> string \<Rightarrow> string \<Rightarrow> RealmType \<Rightarrow> error + 'f SpiritRealm" where
  "summon_spirit py env name raw realm =
     (case convert_by_realm py raw realm of
        Inl e \<Rightarrow> Inl e
      | Inr typed_value \<Rightarrow>
          Inr \<lparr>spirits = dict_set name typed_value (spirits env),
               spirit_realms = dict_set name realm (spirit_realms env),
               spirit_types = dict_set name (infer_type py raw realm) (spirit_types env)\<rparr>)"

section \<open>Interpreter (interpreter/spell_interpreter.py)\<close>

text \<open>
  What the interpreter prints is kept as a list of announcements, without the wording of
  interpreter/io_handler.py. The lines that \<open>input\<close> will read are part of the state;
  with none left \<open>input\<close> raises \<open>EOFError\<close>.
\<close>

datatype 'f announcement =
    RitualBeginning
  | RitualCompletion
  | RitualFailure error
  | ExecutionError error
  | Prompt string RealmType
  | SpiritSummoned string RealmType
  | EssenceChanneled string
  | ForceWoven string
  | Manifestation OperationType string "'f pyvalue"
  | Spoken string "'f pyvalue" string

record 'f SpellInterpreter =
  spirit_realm :: "'f SpiritRealm"
  executor :: "'f MysticalExecutor"
  mystical_mode :: bool
  pending_input :: "string list"
  printed :: "'f announcement list"

definition new_interpreter :: "bool \<Rightarrow> string list \<Rightarrow> 'f SpellInterpreter" where
  "new_interpreter mystical lines =
     \<lparr>spirit_realm = empty_realm, executor = new_executor, mystical_mode = mystical,
      pending_input = lines, printed = []\<rparr>"

definition announce :: "'f SpellInterpreter \<Rightarrow> 'f announcement \<Rightarrow> 'f SpellInterpreter" where
  "announce st a = (if mystical_mode st then st\<lparr>printed := printed st @ [a]\<rparr> else st)"

text \<open>
  Each \<open>_execute_\<close> function returns the raised error, if any, and the interpreter as the
  statement leaves it: nothing is undone when a statement raises.
\<close>

fun execute_invocation ::
  "'f builtins \<Rightarrow> 'f SpellInterpreter \<Rightarrow> string list \<Rightarrow> RealmType \<Rightarrow>
     error option \<times> 'f SpellInterpreter" where
  "execute_invocation py st [] realm = (None, st)"
| "execute_invocation py st (variable # rest) realm =
     (let st1 = st\<lparr>printed := printed st @ [Prompt variable realm]\<rparr> in
      case pending_input st1 of
        [] \<Rightarrow> (Some EndOfInput, st1)
      | raw_value # lines \<Rightarrow>
          (let st2 = st1\<lparr>pending_input := lines\<rparr> in
           case summon_spirit py (spirit_realm st2) variable raw_value realm of
             Inl e \<Rightarrow> (Some e, st2)
           | Inr env \<Rightarrow>
               execute_invocation py
                 (announce (st2\<lparr>spirit_realm := env\<rparr>) (SpiritSummoned variable realm))
                 rest realm))"

definition execute_channeling ::
  "'f builtins \<Rightarrow> 'f SpellInterpreter \<Rightarrow> string \<Rightarrow> error option \<times> 'f SpellInterpreter" where
  "execute_channeling py st variable =
     (case get_spirit_essence (spirit_realm st) variable of
        Inl e \<Rightarrow> (Some e, st)
      | Inr v \<Rightarrow>
          (case channel_essence py (executor st) variable v of
             (Some e, ex) \<Rightarrow> (Some e, st\<lparr>executor := ex\<rparr>)
           | (None, ex) \<Rightarrow>
               (None, announce (st\<lparr>executor := ex\<rparr>) (EssenceChanneled variable))))"

definition execute_weaving ::
  "'f builtins \<Rightarrow> 'f SpellInterpreter \<Rightarrow> string \<Rightarrow> error option \<times> 'f SpellInterpreter" where
  "execute_weaving py st variable =
     (case get_spirit_essence (spirit_realm st) variable of
        Inl e \<Rightarrow> (Some e, st)
      | Inr v \<Rightarrow>
          (case weave_force py (executor st) variable v of
             (Some e, ex) \<Rightarrow> (Some e, st\<lparr>executor := ex\<rparr>)
           | (None, ex) \<Rightarrow>
               (None, announce (st\<lparr>executor := ex\<rparr>) (ForceWoven variable))))"

text \<open>
  \<open>_infer_result_realm\<close>: the realms of the operands that have been summoned, in order.
  \<open>get_spirit_realm\<close> reads \<open>spirit_realms\<close> while \<open>has_spirit\<close> reads \<open>spirits\<close>, so the
  call can raise in an environment where the two differ.
\<close>

fun operand_realms :: "'f SpiritRealm \<Rightarrow> string list \<Rightarrow> error + RealmType list" where
  "operand_realms env [] = Inr []"
| "operand_realms env (operand # rest) =
     (if has_spirit env operand
      then (case get_spirit_realm env operand of
              Inl e \<Rightarrow> Inl e
            | Inr r \<Rightarrow>
                (case operand_realms env rest of
                   Inl e \<Rightarrow> Inl e
                 | Inr rs \<Rightarrow> Inr (r # rs)))
      else operand_realms env rest)"

definition infer_result_realm :: "'f SpiritRealm \<Rightarrow> string list \<Rightarrow> error + RealmType" where
  "infer_result_realm env operands =
     (case operand_realms env operands of
        Inl e \<Rightarrow> Inl e
      | Inr realms \<Rightarrow>
          Inr (if realms = [] then MORTAL
               else if SPIRIT \<in> set realms then SPIRIT
               else if SHADOW \<in> set realms then SHADOW
               else MORTAL))"

text \<open>
  \<open>_execute_manifestation\<close>: the result is bound before the announcement, which prints
  the result in mystical mode only.
\<close>

definition execute_manifestation ::
  "'f builtins \<Rightarrow> 'f SpellInterpreter \<Rightarrow> OperationType \<Rightarrow> string list \<Rightarrow> string \<Rightarrow>
     error option \<times> 'f SpellInterpreter" where
  "execute_manifestation py st operation operands result_variable =
     (case manifest_union py (executor st) operation operands of
        (Inl e, ex) \<Rightarrow> (Some e, st\<lparr>executor := ex\<rparr>)
      | (Inr result, ex) \<Rightarrow>
          (let st1 = st\<lparr>executor := ex\<rparr> in
           case infer_result_realm (spirit_realm st1) operands of
             Inl e \<Rightarrow> (Some e, st1)
           | Inr result_realm \<Rightarrow>
               (let st2 = st1\<lparr>spirit_realm :=
                      bind_manifestation (spirit_realm st1) result_variable result result_realm\<rparr> in
                if mystical_mode st2 \<and> py_str py result = None then (Some FormattingFailed, st2)
                else (None, announce st2 (Manifestation operation result_variable result)))))"

text \<open>
  In plain mode \<open>SPEAK\<close> prints the target without every "the ", in mystical mode the
  target as it is; both print the value.
\<close>

definition execute_speaking ::
  "'f builtins \<Rightarrow> 'f SpellInterpreter \<Rightarrow> string \<Rightarrow> string \<Rightarrow>
     error option \<times> 'f SpellInterpreter" where
  "execute_speaking py st variable target =
     (case get_spirit_essence (spirit_realm st) variable of
        Inl e \<Rightarrow> (Some e, st)
      | Inr v \<Rightarrow>
          (case py_str py v of
             None \<Rightarrow> (Some FormattingFailed, st)
           | Some _ \<Rightarrow>
               (None,
                st\<lparr>printed := printed st @
                     [Spoken variable v
                        (if mystical_mode st then target else remove_all ''the '' target)]\<rparr>)))"

fun execute_statement ::
  "'f builtins \<Rightarrow> 'f SpellInterpreter \<Rightarrow> SpellNode \<Rightarrow> error option \<times> 'f SpellInterpreter" where
  "execute_statement py st (InvokeNode variables realm) = execute_invocation py st variables realm"
| "execute_statement py st (ChannelNode variable) = execute_channeling py st variable"
| "execute_statement py st (WeaveNode variable) = execute_weaving py st variable"
| "execute_statement py st (ManifestNode operation operands result_variable) =
     execute_manifestation py st operation operands result_variable"
| "execute_statement py st (SpeakNode variable target) = execute_speaking py st variable target"
| "execute_statement py st _ = (Some UnknownStatement, st)"

text \<open>The \<open>for\<close> loop of \<open>execute_spell_program\<close>: the first error ends it.\<close>

fun execute_statements ::
  "'f builtins \<Rightarrow> 'f SpellInterpreter \<Rightarrow> SpellNode list \<Rightarrow> error option \<times> 'f SpellInterpreter" where
  "execute_statements py st [] = (None, st)"
| "execute_statements py st (statement # rest) =
     (case execute_statement py st statement of
        (Some e, st1) \<Rightarrow> (Some e, st1)
      | (None, st1) \<Rightarrow> execute_statements py st1 rest)"

text \<open>
  \<open>execute_spell_program\<close>: the error caught by \<open>except Exception\<close> is announced and
  raised again; one that is not an \<open>Exception\<close> passes unannounced.
\<close>

definition execute_spell_program ::
  "'f builtins \<Rightarrow> 'f SpellInterpreter \<Rightarrow> SpellNode list \<Rightarrow> error option \<times> 'f SpellInterpreter" where
  "execute_spell_program py st statements =
     (case execute_statements py (announce st RitualBeginning) statements of
        (None, st1) \<Rightarrow> (None, announce st1 RitualCompletion)
      | (Some e, st1) \<Rightarrow>
          (Some e,
           if e = EvaluationEscaped then st1
           else if mystical_mode st1 then st1\<lparr>printed := printed st1 @ [RitualFailure e]\<rparr>
           else st1\<lparr>printed := printed st1 @ [ExecutionError e]\<rparr>))"

definition get_spirit_realm_status ::
  "'f builtins \<Rightarrow> 'f SpellInterpreter \<Rightarrow>
     (string \<times> 'f pyvalue \<times> string \<times> RealmType) list option" where
  "get_spirit_realm_status py st = get_realm_status py (spirit_realm st)"

section \<open>An instance of the built-ins\<close>

text \<open>
  The examples below run the model on concrete inputs, with this instance of the
  built-ins: floats are rationals with exact arithmetic, \<open>int\<close> reads an optional sign
  and decimal digits, \<open>float\<close> reads the same texts, \<open>str\<close> never raises, and
  \<open>eval\<close> raises \<open>SystemExit\<close> for the text \<open>[exit()]\<close> and an \<open>Exception\<close> for
  every other text. It agrees with Python on the inputs the examples use.
\<close>

definition digit_value :: "char \<Rightarrow> nat option" where
  "digit_value c = map_of (zip ''0123456789'' [0, 1, 2, 3, 4, 5, 6, 7, 8, 9]) c"

fun decimal :: "nat \<Rightarrow> string \<Rightarrow> nat option" where
  "decimal acc [] = Some acc"
| "decimal acc (c # cs) =
     (case digit_value c of None \<Rightarrow> None | Some d \<Rightarrow> decimal (10 * acc + d) cs)"

definition parse_int :: "string \<Rightarrow> int option" where
  "parse_int s =
     (case s of
        [] \<Rightarrow> None
      | c # cs \<Rightarrow>
          (if c = CHR ''-'' then (if cs = [] then None else map_option (\<lambda>n. - int n) (decimal 0 cs))
           else if c = CHR ''+'' then (if cs = [] then None else map_option int (decimal 0 cs))
           else map_option int (decimal 0 s)))"

definition example_builtins :: "rat builtins" where
  "example_builtins =
     \<lparr>int_of_str = parse_int,
      float_of_str = (\<lambda>s. map_option of_int (parse_int s)),
      float_of_int = (\<lambda>i. Some (of_int i)),
      float_is_zero = (\<lambda>x. x = 0),
      float_add = (+),
      float_sub = (-),
      float_mul = (*),
      float_div = (/),
      float_pow = (\<lambda>x y. None),
      int_truediv = (\<lambda>a b. Some (of_int a / of_int b)),
      str_of = (\<lambda>v. ''<object>''),
      str_raises = (\<lambda>v. False),
      object_add = (\<lambda>l r. None),
      object_float = (\<lambda>n. None),
      object_truth = (\<lambda>n. True),
      eval_text = (\<lambda>s. if s = ''[exit()]'' then Escaped else Raised),
      fromisoformat = (\<lambda>s. None)\<rparr>"

definition example_realm :: "rat SpiritRealm" where
  "example_realm =
     \<lparr>spirits = [(''x'', PyInt 3), (''y'', PyInt 4)],
      spirit_realms = [(''x'', SPIRIT), (''y'', MORTAL)],
      spirit_types = [(''x'', ''int''), (''y'', ''int'')]\<rparr>"

definition example_interpreter :: "rat SpellInterpreter" where
  "example_interpreter =
     \<lparr>spirit_realm = example_realm,
      executor = \<lparr>channeled_essence = PyInt 3, woven_force = PyInt 4, operation_history = []\<rparr>,
      mystical_mode = False, pending_input = [], printed = []\<rparr>"

definition example_shadow_realm :: "rat SpiritRealm" where
  "example_shadow_realm =
     \<lparr>spirits = [(''b'', PyBool True), (''m'', PyInt 4), (''n'', PyInt 5)],
      spirit_realms = [(''b'', SHADOW), (''m'', MORTAL), (''n'', MORTAL)],
      spirit_types = [(''b'', ''bool''), (''m'', ''int''), (''n'', ''int'')]\<rparr>"

definition example_shadow_interpreter :: "rat SpellInterpreter" where
  "example_shadow_interpreter =
     \<lparr>spirit_realm = example_shadow_realm,
      executor = \<lparr>channeled_essence = PyInt 4, woven_force = PyInt 5, operation_history = []\<rparr>,
      mystical_mode = True, pending_input = [], printed = []\<rparr>"

section \<open>Predicates used in the statements\<close>





section \<open>Dictionaries: lookups after an assignment\<close>

lemma map_of_dict_set: "map_of (dict_set k v d) = (map_of d)(k \<mapsto> v)"
  by (induction d) (auto simp: fun_eq_iff)


lemma dict_has_dict_set: "dict_has k' (dict_set k v d) = (k' = k \<or> dict_has k' d)"
  by (simp add: dict_has_def map_of_dict_set)

section \<open>The statement loop\<close>

lemma execute_statements_append:
  "execute_statements py st (pre @ rest) =
     (case execute_statements py st pre of
        (Some e, st1) \<Rightarrow> (Some e, st1)
      | (None, st1) \<Rightarrow> execute_statements py st1 rest)"
  by (induction pre arbitrary: st) (auto split: prod.splits option.splits)

lemma execute_statements_failure:
  assumes "execute_statements py st pre = (None, st1)"
    and "execute_statement py st1 s = (Some e, st2)"
  shows "execute_statements py st (pre @ s # rest) = (Some e, st2)"
  using assms by (simp add: execute_statements_append)

lemma operand_realms_value:
  "operand_realms env operands = Inr rs \<Longrightarrow>
     set rs = {r. \<exists>x \<in> set operands. has_spirit env x \<and> get_spirit_realm env x = Inr r}"
proof (induction operands arbitrary: rs)
  case Nil
  then show ?case by simp
next
  case (Cons x xs)
  then show ?case
    by (auto split: if_splits sum.splits)
qed

section \<open>Formatting inside the engine\<close>

lemma manifest_union_formats:
  assumes "manifest_union py ex operation operands = (Inr result, ex1)"
  shows "py_str py result \<noteq> None"
  using assms
  by (auto simp: manifest_union_def Let_def split: if_splits sum.splits)

section \<open>Result realm of a manifestation\<close>

lemma operand_realms_total:
  assumes "\<forall>x \<in> set operands. has_spirit env x \<longrightarrow> map_of (spirit_realms env) x \<noteq> None"
  shows "\<exists>rs. operand_realms env operands = Inr rs"
  using assms
  by (induction operands) (auto simp: get_spirit_realm_def split: option.splits)

text \<open>
  C7: when the evaluation of a Manifest statement succeeds (and every listed operand that
  has been summoned has a realm, as every summoned or bound name does), the statement
  succeeds and binds the result with the realm SPIRIT if one of the listed operands that
  have been summoned is of the SPIRIT realm, otherwise SHADOW if one is of the SHADOW
  realm, otherwise MORTAL. The examples bind a SPIRIT result from a SPIRIT and a MORTAL
  operand, a SHADOW result from a SHADOW and a MORTAL operand, and a MORTAL result from
  two MORTAL operands.
\<close>

theorem manifest_result_realm:
  assumes "manifest_union py (executor st) operation operands = (Inr result, ex)"
    and "\<forall>x \<in> set operands. has_spirit (spirit_realm st) x \<longrightarrow>
           map_of (spirit_realms (spirit_realm st)) x \<noteq> None"
  shows "\<exists>st1. execute_manifestation py st operation operands result_variable = (None, st1) \<and>
           get_spirit_essence (spirit_realm st1) result_variable = Inr result \<and>
           get_spirit_realm (spirit_realm st1) result_variable =
             Inr (if \<exists>x \<in> set operands. has_spirit (spirit_realm st) x \<and>
                        get_spirit_realm (spirit_realm st) x = Inr SPIRIT then SPIRIT
                  else if \<exists>x \<in> set operands. has_spirit (spirit_realm st) x \<and>
                        get_spirit_realm (spirit_realm st) x = Inr SHADOW then SHADOW
                  else MORTAL)"
proof -
  obtain realms where r: "operand_realms (spirit_realm st) operands = Inr realms"
    using operand_realms_total [OF assms(2)] by auto
  have f: "py_str py result \<noteq> None"
    using manifest_union_formats [OF assms(1)] .
  let ?realm = "if realms = [] then MORTAL else if SPIRIT \<in> set realms then SPIRIT
                else if SHADOW \<in> set realms then SHADOW else MORTAL"
  let ?st1 = "announce
      (st\<lparr>executor := ex,
          spirit_realm := bind_manifestation (spirit_realm st) result_variable result ?realm\<rparr>)
      (Manifestation operation result_variable result)"
  have run: "execute_manifestation py st operation operands result_variable = (None, ?st1)"
    using assms(1) r f
    by (simp add: execute_manifestation_def infer_result_realm_def Let_def)
  have set: "set realms = {r. \<exists>x \<in> set operands. has_spirit (spirit_realm st) x \<and>
                get_spirit_realm (spirit_realm st) x = Inr r}"
    using operand_realms_value [OF r] .
  have v: "get_spirit_essence (spirit_realm ?st1) result_variable = Inr result"
    by (simp add: announce_def get_spirit_essence_def bind_manifestation_def map_of_dict_set)
  have "get_spirit_realm (spirit_realm ?st1) result_variable = Inr ?realm"
    by (simp add: announce_def get_spirit_realm_def bind_manifestation_def map_of_dict_set)
  moreover have "realms = [] \<Longrightarrow> SPIRIT \<notin> set realms \<and> SHADOW \<notin> set realms" by simp
  ultimately have "get_spirit_realm (spirit_realm ?st1) result_variable =
             Inr (if \<exists>x \<in> set operands. has_spirit (spirit_realm st) x \<and>
                        get_spirit_realm (spirit_realm st) x = Inr SPIRIT then SPIRIT
                  else if \<exists>x \<in> set operands. has_spirit (spirit_realm st) x \<and>
                        get_spirit_realm (spirit_realm st) x = Inr SHADOW then SHADOW
                  else MORTAL)"
    using set by auto
  with run v show ?thesis by blast
qed

lemmas example_simps =
  example_builtins_def example_interpreter_def example_realm_def
  example_shadow_interpreter_def example_shadow_realm_def
  manifest_union_def perform_union_def arith_def Let_def
  has_spirit_def dict_has_def get_spirit_realm_def get_spirit_essence_def
  execute_manifestation_def infer_result_realm_def bind_manifestation_def announce_def

theorem manifest_result_realm_witness:
  "manifest_union example_builtins (executor example_interpreter) UNION [''x'', ''y''] =
     (Inr (PyInt 7),
      \<lparr>channeled_essence = PyNone, woven_force = PyNone,
       operation_history = [Manifested UNION (PyInt 3) (PyInt 4) (PyInt 7)]\<rparr>) \<and>
   fst (execute_manifestation example_builtins example_interpreter UNION [''x'', ''y''] ''z'') = None \<and>
   get_spirit_realm (spirit_realm (snd
     (execute_manifestation example_builtins example_interpreter UNION [''x'', ''y''] ''z''))) ''z'' =
     Inr SPIRIT \<and>
   fst (execute_manifestation example_builtins example_shadow_interpreter UNION [''b'', ''m''] ''z'') =
     None \<and>
   get_spirit_realm (spirit_realm (snd
     (execute_manifestation example_builtins example_shadow_interpreter UNION [''b'', ''m''] ''z'')))
     ''z'' = Inr SHADOW \<and>
   fst (execute_manifestation example_builtins example_shadow_interpreter UNION [''m'', ''n''] ''z'') =
     None \<and>
   get_spirit_essence (spirit_realm (snd
     (execute_manifestation example_builtins example_shadow_interpreter UNION [''m'', ''n''] ''z'')))
     ''z'' = Inr (PyInt 9) \<and>
   get_spirit_realm (spirit_realm (snd
     (execute_manifestation example_builtins example_shadow_interpreter UNION [''m'', ''n''] ''z'')))
     ''z'' = Inr MORTAL"
proof -
  have a: "manifest_union example_builtins (executor example_interpreter) UNION [''x'', ''y''] =
     (Inr (PyInt 7),
      \<lparr>channeled_essence = PyNone, woven_force = PyNone,
       operation_history = [Manifested UNION (PyInt 3) (PyInt 4) (PyInt 7)]\<rparr>)"
    by (simp add: example_simps)
  have b: "\<forall>x \<in> set [''x'', ''y'']. has_spirit (spirit_realm example_interpreter) x \<longrightarrow>
             map_of (spirit_realms (spirit_realm example_interpreter)) x \<noteq> None"
    by (simp add: example_simps)
  show ?thesis
    using a manifest_result_realm [OF a b, of "''z''"]
    by (simp add: example_simps)
qed

text \<open>
  C10: an operand name that has not been summoned is passed over by the inference of the
  result realm, which is then the same as without that name and raises nothing; with no
  listed operand summoned the result realm is MORTAL.
\<close>

theorem unbound_operands_skipped:
  "(\<not> has_spirit env x \<longrightarrow>
      infer_result_realm env (xs @ x # ys) = infer_result_realm env (xs @ ys)) \<and>
   ((\<forall>x \<in> set operands. \<not> has_spirit env x) \<longrightarrow>
      infer_result_realm env operands = Inr MORTAL)"
proof (intro conjI impI)
  assume nx: "\<not> has_spirit env x"
  have "operand_realms env (xs @ x # ys) = operand_realms env (xs @ ys)"
    using nx by (induction xs) (auto split: sum.splits)
  then show "infer_result_realm env (xs @ x # ys) = infer_result_realm env (xs @ ys)"
    by (simp add: infer_result_realm_def)
next
  assume "\<forall>x \<in> set operands. \<not> has_spirit env x"
  then have "operand_realms env operands = Inr []"
    by (induction operands) auto
  then show "infer_result_realm env operands = Inr MORTAL"
    by (simp add: infer_result_realm_def)
qed

theorem unbound_operands_skipped_witness:
  "\<not> has_spirit example_realm ''q'' \<and>
   infer_result_realm example_realm ([''x''] @ ''q'' # [''y'']) = Inr SPIRIT \<and>
   infer_result_realm example_realm ([''x''] @ [''y'']) = Inr SPIRIT \<and>
   \<not> has_spirit example_realm ''p'' \<and>
   infer_result_realm example_realm [''p'', ''q''] = Inr MORTAL"
  using unbound_operands_skipped [of example_realm "''q''" "[''x'']" "[''y'']" "[''p'', ''q'']"]
  by (simp add: example_realm_def has_spirit_def dict_has_def infer_result_realm_def
        get_spirit_realm_def)

section \<open>Statements the interpreter does not execute\<close>

text \<open>
  C8: a Conditional or WhileLoop statement reaches the last branch of the dispatch and
  raises the "Unknown statement type" error, which ends the program: the statements
  after it are not executed.
\<close>

theorem control_flow_unknown_statement:
  assumes "execute_statements py st pre = (None, st1)"
    and "s = ConditionalNode c thens elses \<or> s = WhileLoopNode c body"
  shows "execute_statement py st1 s = (Some UnknownStatement, st1) \<and>
         execute_statements py st (pre @ s # rest) = (Some UnknownStatement, st1) \<and>
         fst (execute_spell_program py st0 (s # rest)) = Some UnknownStatement"
proof -
  have one: "\<And>t. execute_statement py t s = (Some UnknownStatement, t)"
    using assms(2) by auto
  have "execute_statements py st (pre @ s # rest) = (Some UnknownStatement, st1)"
    using execute_statements_failure [OF assms(1) one] .
  moreover have "fst (execute_spell_program py st0 (s # rest)) = Some UnknownStatement"
    by (simp add: execute_spell_program_def one)
  ultimately show ?thesis using one by simp
qed

theorem control_flow_unknown_statement_witness:
  "execute_statements example_builtins example_interpreter [SpeakNode ''x'' ''the void''] =
     (None, example_interpreter\<lparr>printed := [Spoken ''x'' (PyInt 3) ''void'']\<rparr>) \<and>
   execute_statements example_builtins example_interpreter
     ([SpeakNode ''x'' ''the void''] @
      WhileLoopNode (ConditionText ''x'') [SpeakNode ''y'' ''the void''] # [SpeakNode ''y'' ''the void'']) =
     (Some UnknownStatement, example_interpreter\<lparr>printed := [Spoken ''x'' (PyInt 3) ''void'']\<rparr>)"
proof -
  have run: "execute_statements example_builtins example_interpreter [SpeakNode ''x'' ''the void''] =
     (None, example_interpreter\<lparr>printed := [Spoken ''x'' (PyInt 3) ''void'']\<rparr>)"
    by (simp add: execute_speaking_def get_spirit_essence_def example_interpreter_def
          example_realm_def example_builtins_def)
  show ?thesis
    using run control_flow_unknown_statement [OF run, of
        "WhileLoopNode (ConditionText ''x'') [SpeakNode ''y'' ''the void'']"
        "ConditionText ''x''" "[]" None "[SpeakNode ''y'' ''the void'']"]
    by simp
qed

section \<open>Coercion in the MORTAL realm\<close>

text \<open>
  C9: in the MORTAL realm a text that \<open>int\<close> parses is stored as that integer, and
  any other text (a single character included) is stored as it is; the example summons
  the text 123 and reads back the integer 123.
\<close>

theorem mortal_coercion:
  "(int_of_str py text = Some n \<longrightarrow>
      (\<exists>env1. summon_spirit py env name text MORTAL = Inr env1 \<and>
               get_spirit_essence env1 name = Inr (PyInt n))) \<and>
   (int_of_str py text = None \<longrightarrow>
      (\<exists>env1. summon_spirit py env name text MORTAL = Inr env1 \<and>
               get_spirit_essence env1 name = Inr (PyStr text)))"
  by (simp add: summon_spirit_def convert_mortal_def get_spirit_essence_def map_of_dict_set)

theorem mortal_coercion_witness:
  "int_of_str example_builtins ''123'' = Some 123 \<and>
   (\<exists>env1. summon_spirit example_builtins empty_realm ''x'' ''123'' MORTAL = Inr env1 \<and>
            get_spirit_essence env1 ''x'' = Inr (PyInt 123)) \<and>
   int_of_str example_builtins ''q'' = None \<and>
   (\<exists>env1. summon_spirit example_builtins empty_realm ''x'' ''q'' MORTAL = Inr env1 \<and>
            get_spirit_essence env1 ''x'' = Inr (PyStr ''q''))"
proof -
  have a: "int_of_str example_builtins ''123'' = Some 123"
    by (simp add: example_builtins_def parse_int_def digit_value_def)
  have b: "int_of_str example_builtins ''q'' = None"
    by (simp add: example_builtins_def parse_int_def digit_value_def)
  show ?thesis
    using a b mortal_coercion [of example_builtins "''123''" 123 empty_realm "''x''"]
      mortal_coercion [of example_builtins "''q''" 0 empty_realm "''x''"]
    by simp
qed

section \<open>The accumulator after an evaluation\<close>

lemma manifest_union_failure:
  "manifest_union py ex operation operands = (Inl e, ex1) \<Longrightarrow> ex1 = ex"
  by (auto simp: manifest_union_def Let_def split: if_splits sum.splits)

lemma manifest_union_success:
  "manifest_union py ex operation operands = (Inr v, ex1) \<Longrightarrow>
     channeled_essence ex1 = PyNone \<and> woven_force ex1 = PyNone"
  by (auto simp: manifest_union_def Let_def split: if_splits sum.splits)

text \<open>
  C1, as the code has it: after \<open>manifest_union\<close> returns a result both slots are empty;
  when it raises, the executor, and so both slots, are as they were before the call.
\<close>

theorem manifest_union_slots:
  "(\<forall>v ex1. manifest_union py ex operation operands = (Inr v, ex1) \<longrightarrow>
      channeled_essence ex1 = PyNone \<and> woven_force ex1 = PyNone) \<and>
   (\<forall>e ex1. manifest_union py ex operation operands = (Inl e, ex1) \<longrightarrow> ex1 = ex)"
  using manifest_union_success manifest_union_failure by blast

theorem manifest_union_slots_witness:
  "manifest_union example_builtins
     \<lparr>channeled_essence = PyInt 3, woven_force = PyInt 4, operation_history = []\<rparr>
     UNION [''x'', ''y''] =
     (Inr (PyInt 7),
      \<lparr>channeled_essence = PyNone, woven_force = PyNone,
       operation_history = [Manifested UNION (PyInt 3) (PyInt 4) (PyInt 7)]\<rparr>) \<and>
   channeled_essence
     \<lparr>channeled_essence = PyNone, woven_force = PyNone,
      operation_history = [Manifested UNION (PyInt 3) (PyInt 4) (PyInt 7 :: rat pyvalue)]\<rparr> =
     PyNone \<and>
   manifest_union example_builtins
     \<lparr>channeled_essence = PyInt 3, woven_force = PyStr ''a'', operation_history = []\<rparr>
     DIFFERENCE [''x'', ''y''] =
     (Inl (MysticalOperationFailed CoercionError),
      \<lparr>channeled_essence = PyInt 3, woven_force = PyStr ''a'', operation_history = []\<rparr>)"
proof -
  have a: "manifest_union example_builtins
     \<lparr>channeled_essence = PyInt 3, woven_force = PyInt 4, operation_history = []\<rparr>
     UNION [''x'', ''y''] =
     (Inr (PyInt 7),
      \<lparr>channeled_essence = PyNone, woven_force = PyNone,
       operation_history = [Manifested UNION (PyInt 3) (PyInt 4) (PyInt 7)]\<rparr>)"
    by (simp add: manifest_union_def perform_union_def arith_def Let_def example_builtins_def)
  have b: "fst (manifest_union example_builtins
     \<lparr>channeled_essence = PyInt 3, woven_force = PyStr ''a'', operation_history = []\<rparr>
     DIFFERENCE [''x'', ''y'']) = Inl (MysticalOperationFailed CoercionError)"
    by (simp add: manifest_union_def perform_difference_def Let_def example_builtins_def
          parse_int_def digit_value_def)
  have c: "channeled_essence
     \<lparr>channeled_essence = PyNone, woven_force = PyNone,
      operation_history = [Manifested UNION (PyInt 3) (PyInt 4) (PyInt 7 :: rat pyvalue)]\<rparr> =
     PyNone"
    using manifest_union_slots [of example_builtins
      "\<lparr>channeled_essence = PyInt 3, woven_force = PyInt 4, operation_history = []\<rparr>"
      UNION "[''x'', ''y'']"] a
    by blast
  have d: "snd (manifest_union example_builtins
     \<lparr>channeled_essence = PyInt 3, woven_force = PyStr ''a'', operation_history = []\<rparr>
     DIFFERENCE [''x'', ''y'']) =
     \<lparr>channeled_essence = PyInt 3, woven_force = PyStr ''a'', operation_history = []\<rparr>"
    using manifest_union_slots [of example_builtins
      "\<lparr>channeled_essence = PyInt 3, woven_force = PyStr ''a'', operation_history = []\<rparr>"
      DIFFERENCE "[''x'', ''y'']"] b
    by (metis prod.collapse)
  show ?thesis
    using a b c d by (metis prod.collapse)
qed

text \<open>
  C1 as the specification states it fails: with only the left operand staged the
  evaluation raises and the left slot still holds the operand; a division by zero
  raises and both slots still hold their operands.
\<close>

theorem failed_manifest_keeps_slots:
  "manifest_union example_builtins
     \<lparr>channeled_essence = PyInt 3, woven_force = PyNone, operation_history = []\<rparr>
     UNION [''x''] =
     (Inl MissingOperand,
      \<lparr>channeled_essence = PyInt 3, woven_force = PyNone, operation_history = []\<rparr>) \<and>
   channeled_essence (snd (manifest_union example_builtins
     \<lparr>channeled_essence = PyInt 3, woven_force = PyNone, operation_history = []\<rparr>
     UNION [''x''])) \<noteq> PyNone \<and>
   manifest_union example_builtins
     \<lparr>channeled_essence = PyInt 10, woven_force = PyInt 0, operation_history = []\<rparr>
     DIVISION [''x'', ''y''] =
     (Inl (MysticalOperationFailed DivisionByZero),
      \<lparr>channeled_essence = PyInt 10, woven_force = PyInt 0, operation_history = []\<rparr>)"
  by (simp add: manifest_union_def perform_division_def)

section \<open>Missing operands and the identity operation\<close>

lemma manifest_union_missing_operand:
  "(fst (manifest_union py ex operation operands) = Inl MissingOperand) =
     (if operation = ESSENCE then channeled_essence ex = PyNone
      else channeled_essence ex = PyNone \<or> woven_force ex = PyNone)"
  by (auto simp: manifest_union_def Let_def split: if_splits sum.splits)

lemma manifest_union_essence:
  assumes "channel_essence py ex0 variable v = (None, ex)" and "v \<noteq> PyNone"
    and "py_str py (woven_force ex0) \<noteq> None"
  shows "fst (manifest_union py ex ESSENCE operands) = Inr v"
  using assms
  by (auto simp: channel_essence_def manifest_union_def perform_essence_def Let_def
           split: option.splits)

text \<open>
  C2, as the code has it: \<open>manifest_union\<close> raises the missing-operand error exactly
  when a slot it requires holds \<open>None\<close>, the left slot for the identity operation and
  either slot for every other operation; a slot holds \<open>None\<close> when nothing was staged
  and also when the staged value is \<open>None\<close>. The identity operation returns unchanged
  every staged left value other than \<open>None\<close> (the content of the right slot having a
  text form for the history line, as every woven value and the empty slot have).
\<close>

theorem manifest_union_operands:
  "(fst (manifest_union py ex operation operands) = Inl MissingOperand) =
     (if operation = ESSENCE then channeled_essence ex = PyNone
      else channeled_essence ex = PyNone \<or> woven_force ex = PyNone) \<and>
   (channel_essence py ex0 variable v = (None, ex) \<and> v \<noteq> PyNone \<and>
    py_str py (woven_force ex0) \<noteq> None \<longrightarrow>
      fst (manifest_union py ex ESSENCE operands) = Inr v)"
  using manifest_union_missing_operand manifest_union_essence by blast

theorem manifest_union_operands_witness:
  "channel_essence example_builtins new_executor ''x'' (PyInt 5) =
     (None, \<lparr>channeled_essence = PyInt 5, woven_force = PyNone,
             operation_history = [Channeled ''x'' (PyInt 5)]\<rparr>) \<and>
   fst (manifest_union example_builtins
          \<lparr>channeled_essence = PyInt 5, woven_force = PyNone,
           operation_history = [Channeled ''x'' (PyInt 5)]\<rparr>
          ESSENCE [''x'']) = Inr (PyInt 5) \<and>
   fst (manifest_union example_builtins
          \<lparr>channeled_essence = PyInt 5, woven_force = PyNone,
           operation_history = [Channeled ''x'' (PyInt 5)]\<rparr>
          UNION [''x'']) = Inl MissingOperand"
proof -
  have c: "channel_essence example_builtins new_executor ''x'' (PyInt 5) =
     (None, \<lparr>channeled_essence = PyInt 5, woven_force = PyNone,
             operation_history = [Channeled ''x'' (PyInt 5)]\<rparr>)"
    by (simp add: channel_essence_def new_executor_def example_builtins_def)
  show ?thesis
    using c
      manifest_union_operands [of example_builtins
        "\<lparr>channeled_essence = PyInt 5, woven_force = PyNone,
          operation_history = [Channeled ''x'' (PyInt 5)]\<rparr>"
        ESSENCE "[''x'']" new_executor "''x''" "PyInt 5"]
      manifest_union_operands [of example_builtins
        "\<lparr>channeled_essence = PyInt 5, woven_force = PyNone,
          operation_history = [Channeled ''x'' (PyInt 5)]\<rparr>"
        UNION "[''x'']" new_executor "''x''" "PyInt 5"]
    by (simp add: new_executor_def)
qed

text \<open>
  C2 as the specification states it fails at the staged value \<open>None\<close>: a spirit of the
  VOID realm summoned from the text null holds \<open>None\<close>; channelling it is recorded in
  the history, and the identity operation then raises the missing-operand error instead
  of returning the value.
\<close>

theorem null_essence_rejected:
  "channel_essence example_builtins new_executor ''x'' PyNone =
     (None, \<lparr>channeled_essence = PyNone, woven_force = PyNone,
             operation_history = [Channeled ''x'' PyNone]\<rparr>) \<and>
   manifest_union example_builtins
     \<lparr>channeled_essence = PyNone, woven_force = PyNone,
      operation_history = [Channeled ''x'' PyNone]\<rparr> ESSENCE [''x''] =
     (Inl MissingOperand,
      \<lparr>channeled_essence = PyNone, woven_force = PyNone,
       operation_history = [Channeled ''x'' PyNone]\<rparr>) \<and>
   fst (execute_spell_program example_builtins (new_interpreter False [''null''])
          [InvokeNode [''x''] VOID, ChannelNode ''x'', ManifestNode ESSENCE [''x''] ''r'']) =
     Some MissingOperand"
  by (simp add: manifest_union_def channel_essence_def new_executor_def
        execute_spell_program_def new_interpreter_def announce_def summon_spirit_def
        lower_def lower_char_def empty_realm_def execute_channeling_def
        get_spirit_essence_def execute_manifestation_def Let_def)

section \<open>Union of booleans\<close>

text \<open>
  C3: the branch of \<open>_perform_union\<close> commented "Logical OR for booleans" comes after
  the branch for two numbers, and a boolean is a number (\<open>bool\<close> is a subclass of
  \<open>int\<close>): the union of True and True is the integer 2, not True. A text operand is
  tested before both: the union of False and the text x is the text Falsex.
\<close>

theorem union_of_booleans_adds:
  "manifest_union example_builtins
     \<lparr>channeled_essence = PyBool True, woven_force = PyBool True, operation_history = []\<rparr>
     UNION [''a'', ''b''] =
     (Inr (PyInt 2),
      \<lparr>channeled_essence = PyNone, woven_force = PyNone,
       operation_history = [Manifested UNION (PyBool True) (PyBool True) (PyInt 2)]\<rparr>) \<and>
   fst (manifest_union example_builtins
     \<lparr>channeled_essence = PyBool False, woven_force = PyStr ''x'', operation_history = []\<rparr>
     UNION [''a'', ''b'']) = Inr (PyStr ''Falsex'')"
  by (simp add: manifest_union_def perform_union_def arith_def str_concat_def Let_def
        example_builtins_def)

section \<open>Division by zero\<close>






section \<open>Summoning never loses the raw text\<close>




section \<open>Bindings after a failed statement\<close>

lemma announce_spirit_realm [simp]: "spirit_realm (announce st a) = spirit_realm st"
  by (simp add: announce_def)
















end
